theory Spec2Isabelle
  imports Main "HOL-Library.Word"
begin

unbundle bit_operations_syntax

section \<open>Button classifier and LED controller (HWs/HW3/HW3/src/RoniMain.cpp)\<close>

text \<open>
  The program of \<^verbatim>\<open>RoniMain.cpp\<close> that is compiled is the part after the commented-out
  "solution without a timer" (source lines 88 to 241). It runs on an AVR microcontroller
  (\<^verbatim>\<open>avr/interrupt.h\<close>, Timer1): \<^verbatim>\<open>int\<close> is a 16-bit two's complement integer and
  \<^verbatim>\<open>unsigned long\<close> is a 32-bit unsigned integer. Both are modelled as machine words, so
  \<open>+\<close>, \<open>-\<close> and \<open>*\<close> wrap around; a signed reading of an \<^verbatim>\<open>int\<close> is \<open>sint\<close>.
\<close>

subsection \<open>Constants\<close>

type_synonym c_int = "16 word"
type_synonym c_ulong = "32 word"

definition SHORT_PRESS_TIME :: c_ulong where
  "SHORT_PRESS_TIME = 1500"

definition LONG_PRESS_TIME :: c_ulong where
  "LONG_PRESS_TIME = 4000"

definition DEBOUNCE_TIME :: c_ulong where
  "DEBOUNCE_TIME = 50"

text \<open>
  Bit positions of the Timer1 registers. They come from the AVR device header
  (\<^verbatim>\<open>avr/io.h\<close> for the ATmega328P), which is not part of the repository; the
  source's comment at line 172 names their meaning: CTC mode (WGM12), prescaler 1024
  (CS12 and CS10), compare-match A interrupt enable (OCIE1A).
\<close>

definition WGM12 :: nat where
  "WGM12 = 3"

definition CS12 :: nat where
  "CS12 = 2"

definition CS10 :: nat where
  "CS10 = 0"

definition OCIE1A :: nat where
  "OCIE1A = 1"

subsection \<open>State\<close>

text \<open>What the program writes to the serial line, in order.\<close>

datatype serial_out =
    Print string
  | Println string
  | PrintlnInt c_int

text \<open>
  The global variables of the program (source lines 102 to 114), the level of the LED
  pin, the Timer1 registers the program writes, the global interrupt enable, and the
  serial output.
\<close>

record state =
  PressCounter :: c_int
  pressTime :: c_ulong
  lastISRTime :: c_ulong
  actionShort :: bool
  actionStart :: bool
  actionStop :: bool
  Blink :: bool
  lastFlashStart :: c_ulong
  feedbackLedOn :: bool
  ledPin :: bool
  TCCR1A :: "8 word"
  TCCR1B :: "8 word"
  TCNT1 :: "16 word"
  OCR1A :: "16 word"
  TIMSK1 :: "8 word"
  interruptsOn :: bool
  serial :: "serial_out list"

text \<open>
  The initialisers of the globals (lines 102 to 114), with the hardware in its reset
  state: registers zero, the LED pin low.
\<close>

definition initial :: state where
  "initial =
     \<lparr> PressCounter = 0, pressTime = 0, lastISRTime = 0,
       actionShort = False, actionStart = False, actionStop = False,
       Blink = False, lastFlashStart = 0, feedbackLedOn = False,
       ledPin = False, TCCR1A = 0, TCCR1B = 0, TCNT1 = 0, OCR1A = 0, TIMSK1 = 0,
       interruptsOn = True, serial = [] \<rparr>"

subsection \<open>Interrupt handlers\<close>

text \<open>
  \<^verbatim>\<open>buttonISR\<close> (lines 124 to 153). \<open>now\<close> is the value \<^verbatim>\<open>millis()\<close> returns and
  \<open>high\<close> says whether \<^verbatim>\<open>digitalRead(buttonPin)\<close> is \<^verbatim>\<open>HIGH\<close>. The subtractions
  are on \<^verbatim>\<open>unsigned long\<close>, so they wrap modulo \<open>2 ^ 32\<close>.
\<close>

definition buttonISR :: "c_ulong \<Rightarrow> bool \<Rightarrow> state \<Rightarrow> state" where
  "buttonISR now high s =
     (if now - lastISRTime s < DEBOUNCE_TIME then s
      else
        let s1 = s\<lparr>lastISRTime := now\<rparr> in
        if high then s1\<lparr>pressTime := now\<rparr>
        else
          let duration = now - pressTime s1 in
          if duration < SHORT_PRESS_TIME then
            (if \<not> Blink s1
             then s1\<lparr>PressCounter := PressCounter s1 + 1, actionShort := True\<rparr>
             else s1)
          else if duration < LONG_PRESS_TIME then s1\<lparr>actionStart := True\<rparr>
          else s1\<lparr>actionStop := True\<rparr>)"

text \<open>The Timer1 compare-match handler (lines 157 to 159) toggles the LED pin.\<close>

definition timerISR :: "state \<Rightarrow> state" where
  "timerISR s = s\<lparr>ledPin := \<not> ledPin s\<rparr>"

subsection \<open>Timer control\<close>

text \<open>
  \<^verbatim>\<open>startTimer\<close> (lines 164 to 178). The product \<^verbatim>\<open>7812 * counts\<close> is computed on
  \<^verbatim>\<open>int\<close> and stored in the 16-bit register OCR1A, which keeps its low 16 bits. From
  \<open>counts = 5\<close> on the product is beyond the largest \<^verbatim>\<open>int\<close>, 32767; the model takes
  the 16-bit product the target computes, which wraps around.
\<close>

definition startTimer :: "c_int \<Rightarrow> state \<Rightarrow> state" where
  "startTimer counts0 s =
     (let counts = (if counts0 = 0 then 1 else counts0);
          s1 = s\<lparr>interruptsOn := False\<rparr>;
          s2 = s1\<lparr>TCCR1A := 0, TCCR1B := 0, TCNT1 := 0\<rparr>;
          s3 = s2\<lparr>OCR1A := 7812 * counts - 1\<rparr>;
          s4 = s3\<lparr>TCCR1B :=
                 TCCR1B s3 OR (push_bit WGM12 1 OR push_bit CS12 1 OR push_bit CS10 1)\<rparr>;
          s5 = s4\<lparr>TIMSK1 := TIMSK1 s4 OR push_bit OCIE1A 1\<rparr>
      in s5\<lparr>interruptsOn := True\<rparr>)"

text \<open>\<^verbatim>\<open>stopTimer\<close> (lines 181 to 188).\<close>

definition stopTimer :: "state \<Rightarrow> state" where
  "stopTimer s =
     s\<lparr>TCCR1B := 0, TIMSK1 := 0, ledPin := False, PressCounter := 0, Blink := False\<rparr>"

subsection \<open>Start-up and the main loop\<close>

text \<open>
  The function \<^verbatim>\<open>setup()\<close> of the source (lines 190 to 197), named \<open>setup_board\<close> here
  because its own name is an Isabelle keyword: the pin modes and the interrupt registration leave the
  modelled state as it is; one line is written to the serial output.
\<close>

definition setup_board :: "state \<Rightarrow> state" where
  "setup_board s = s\<lparr>serial := serial s @ [Println ''System Ready.'']\<rparr>"

text \<open>
  The body of \<^verbatim>\<open>loop\<close> is four \<^verbatim>\<open>if\<close> statements in sequence; each is a function
  here, and \<open>loop\<close> is their composition in the order of the source.

  Lines 201 to 209: the stop event. \<^verbatim>\<open>delay(100)\<close> only lets time pass; time enters the
  model through the values \<^verbatim>\<open>millis()\<close> returns.
\<close>

definition loop_stop :: "state \<Rightarrow> state" where
  "loop_stop s =
     (if actionStop s then
        stopTimer
          (s\<lparr>actionStop := False,
             serial := serial s @
               [Println ''!!! SYSTEM SHUTDOWN !!!'',
                Println ''The system is turning OFF now...'']\<rparr>)
      else s)"

text \<open>Lines 212 to 220: the short-press event. \<open>t\<close> is what \<^verbatim>\<open>millis()\<close> returns at line 219.\<close>

definition loop_short :: "c_ulong \<Rightarrow> state \<Rightarrow> state" where
  "loop_short t s =
     (if actionShort s then
        s\<lparr>actionShort := False,
          serial := serial s @ [Print ''Short press number: '', PrintlnInt (PressCounter s)],
          ledPin := True,
          feedbackLedOn := True,
          lastFlashStart := t\<rparr>
      else s)"

text \<open>Lines 223 to 226: the end of the feedback flash. \<open>t\<close> is \<^verbatim>\<open>millis()\<close> at line 223.\<close>

definition loop_flash :: "c_ulong \<Rightarrow> state \<Rightarrow> state" where
  "loop_flash t s =
     (if feedbackLedOn s \<and> t - lastFlashStart s \<ge> 200
      then s\<lparr>ledPin := False, feedbackLedOn := False\<rparr>
      else s)"

text \<open>
  Lines 229 to 240: the start event. \<^verbatim>\<open>PressCounter > 0\<close> compares a signed \<^verbatim>\<open>int\<close>.
\<close>

definition loop_start :: "state \<Rightarrow> state" where
  "loop_start s =
     (if actionStart s then
        let s1 = s\<lparr>actionStart := False\<rparr> in
        if \<not> Blink s1 \<and> 0 < sint (PressCounter s1) then
          let s2 = s1\<lparr>serial := serial s1 @
                      [Print ''Medium press. Starting with: '', PrintlnInt (PressCounter s1)]\<rparr>;
              s3 = s2\<lparr>ledPin := False\<rparr>;
              s4 = startTimer (PressCounter s3) s3
          in s4\<lparr>Blink := True\<rparr>
        else s1
      else s)"

text \<open>
  One iteration of \<^verbatim>\<open>loop\<close> (lines 199 to 241) with no interrupt served inside it.
  \<open>t1\<close> and \<open>t2\<close> are the two readings of \<^verbatim>\<open>millis()\<close>, at lines 219 and 223.
\<close>

definition loop :: "c_ulong \<Rightarrow> c_ulong \<Rightarrow> state \<Rightarrow> state" where
  "loop t1 t2 s = loop_start (loop_flash t2 (loop_short t1 (loop_stop s)))"

subsection \<open>Timing of the blink\<close>

text \<open>
  What the hardware makes of the registers, after the source's comment at lines 161 to
  163: with prescaler 1024 on a 16 MHz clock the timer ticks at 15625 Hz, one tick every
  64 microseconds; in CTC mode the counter runs from 0 to OCR1A, so the compare match
  (and with it a toggle of the LED) comes every \<open>OCR1A + 1\<close> ticks. A full blink period
  (LED on, then off) is two toggles.
\<close>

definition toggle_ticks :: "state \<Rightarrow> nat" where
  "toggle_ticks s = unat (OCR1A s) + 1"

definition toggle_us :: "state \<Rightarrow> nat" where
  "toggle_us s = 64 * toggle_ticks s"

definition blink_period_us :: "state \<Rightarrow> nat" where
  "blink_period_us s = 2 * toggle_us s"

text \<open>Microseconds rounded to the nearest millisecond.\<close>

definition ms_of_us :: "nat \<Rightarrow> nat" where
  "ms_of_us u = (u + 500) div 1000"

definition toggle_ms :: "state \<Rightarrow> nat" where
  "toggle_ms s = ms_of_us (toggle_us s)"

definition blink_period_ms :: "state \<Rightarrow> nat" where
  "blink_period_ms s = ms_of_us (blink_period_us s)"

text \<open>The timer is armed when its clock runs and its compare interrupt is enabled.\<close>

definition timer_armed :: "state \<Rightarrow> bool" where
  "timer_armed s = (TCCR1B s AND 7 \<noteq> 0 \<and> bit (TIMSK1 s) OCIE1A)"

subsection \<open>Events\<close>

text \<open>
  What the hardware dispatches: a level change on the button pin runs \<open>buttonISR\<close>, a
  compare match of Timer1 runs \<open>timerISR\<close>, and the Arduino core calls \<open>loop\<close> again
  and again. An event carries the values the handler reads from the hardware.
\<close>

datatype event =
    ButtonEdge c_ulong bool
  | TimerCompare
  | LoopPass c_ulong c_ulong

fun step :: "event \<Rightarrow> state \<Rightarrow> state" where
  "step (ButtonEdge now high) s = buttonISR now high s"
| "step TimerCompare s = timerISR s"
| "step (LoopPass t1 t2) s = loop t1 t2 s"

fun run :: "event list \<Rightarrow> state \<Rightarrow> state" where
  "run [] s = s"
| "run (e # es) s = run es (step e s)"

subsection \<open>Signed overflow made explicit\<close>

text \<open>
  The handlers above compute what the target computes: 16-bit arithmetic that wraps
  around. The C++ language gives a signed \<^verbatim>\<open>int\<close> computation no result when the
  mathematical value is outside the range of \<^verbatim>\<open>int\<close>, here \<open>- 32768\<close> to \<open>32767\<close>. The
  source has two signed computations: \<^verbatim>\<open>PressCounter++\<close> (line 140) and
  \<^verbatim>\<open>(7812 * counts) - 1\<close> (line 170). The definitions below are the same handlers with
  these two computations checked: where the value leaves the range they return a fault
  instead of a state. The unsigned subtractions of the time stamps and the conversion of
  an \<^verbatim>\<open>int\<close> to the unsigned register OCR1A are defined by the language for every value.
\<close>

datatype fault = SignedOverflow

definition int_result :: "int \<Rightarrow> fault + c_int" where
  "int_result i =
     (if - 32768 \<le> i \<and> i \<le> 32767 then Inr (word_of_int i) else Inl SignedOverflow)"

text \<open>\<^verbatim>\<open>buttonISR\<close> (lines 124 to 153) with the increment of line 140 checked.\<close>

definition buttonISR_c :: "c_ulong \<Rightarrow> bool \<Rightarrow> state \<Rightarrow> fault + state" where
  "buttonISR_c now high s =
     (if now - lastISRTime s < DEBOUNCE_TIME then Inr s
      else
        let s1 = s\<lparr>lastISRTime := now\<rparr> in
        if high then Inr (s1\<lparr>pressTime := now\<rparr>)
        else
          let duration = now - pressTime s1 in
          if duration < SHORT_PRESS_TIME then
            (if \<not> Blink s1 then
               (case int_result (sint (PressCounter s1) + 1) of
                  Inl f \<Rightarrow> Inl f
                | Inr c \<Rightarrow> Inr (s1\<lparr>PressCounter := c, actionShort := True\<rparr>))
             else Inr s1)
          else if duration < LONG_PRESS_TIME then Inr (s1\<lparr>actionStart := True\<rparr>)
          else Inr (s1\<lparr>actionStop := True\<rparr>))"

text \<open>
  \<^verbatim>\<open>startTimer\<close> (lines 164 to 178) with the product and the subtraction of line 170
  checked.
\<close>

definition startTimer_c :: "c_int \<Rightarrow> state \<Rightarrow> fault + state" where
  "startTimer_c counts0 s =
     (let counts = (if counts0 = 0 then 1 else counts0);
          s1 = s\<lparr>interruptsOn := False\<rparr>;
          s2 = s1\<lparr>TCCR1A := 0, TCCR1B := 0, TCNT1 := 0\<rparr>
      in case int_result (7812 * sint counts) of
           Inl f \<Rightarrow> Inl f
         | Inr p \<Rightarrow>
            (case int_result (sint p - 1) of
               Inl f \<Rightarrow> Inl f
             | Inr v \<Rightarrow>
                let s3 = s2\<lparr>OCR1A := v\<rparr>;
                    s4 = s3\<lparr>TCCR1B :=
                           TCCR1B s3 OR (push_bit WGM12 1 OR push_bit CS12 1 OR push_bit CS10 1)\<rparr>;
                    s5 = s4\<lparr>TIMSK1 := TIMSK1 s4 OR push_bit OCIE1A 1\<rparr>
                in Inr (s5\<lparr>interruptsOn := True\<rparr>)))"

text \<open>The start handler of \<^verbatim>\<open>loop\<close> (lines 229 to 240) calling the checked \<open>startTimer_c\<close>.\<close>

definition loop_start_c :: "state \<Rightarrow> fault + state" where
  "loop_start_c s =
     (if actionStart s then
        let s1 = s\<lparr>actionStart := False\<rparr> in
        if \<not> Blink s1 \<and> 0 < sint (PressCounter s1) then
          let s2 = s1\<lparr>serial := serial s1 @
                      [Print ''Medium press. Starting with: '', PrintlnInt (PressCounter s1)]\<rparr>;
              s3 = s2\<lparr>ledPin := False\<rparr>
          in case startTimer_c (PressCounter s3) s3 of
               Inl f \<Rightarrow> Inl f
             | Inr s4 \<Rightarrow> Inr (s4\<lparr>Blink := True\<rparr>)
        else Inr s1
      else Inr s)"

definition loop_c :: "c_ulong \<Rightarrow> c_ulong \<Rightarrow> state \<Rightarrow> fault + state" where
  "loop_c t1 t2 s = loop_start_c (loop_flash t2 (loop_short t1 (loop_stop s)))"

fun step_c :: "event \<Rightarrow> state \<Rightarrow> fault + state" where
  "step_c (ButtonEdge now high) s = buttonISR_c now high s"
| "step_c TimerCompare s = Inr (timerISR s)"
| "step_c (LoopPass t1 t2) s = loop_c t1 t2 s"

fun run_c :: "event list \<Rightarrow> state \<Rightarrow> fault + state" where
  "run_c [] s = Inr s"
| "run_c (e # es) s = (case step_c e s of Inl f \<Rightarrow> Inl f | Inr s' \<Rightarrow> run_c es s')"

text \<open>
  Button presses as the events they produce. A short press starting at time \<open>t\<close>: the
  press edge, the release edge 100 ms later, an iteration of \<open>loop\<close> that consumes the
  event, and one 300 ms later that ends the feedback flash. A medium press: the press
  edge, the release edge 2000 ms later, and the iteration that consumes the event.
\<close>

definition short_press :: "c_ulong \<Rightarrow> event list" where
  "short_press t =
     [ButtonEdge t True, ButtonEdge (t + 100) False,
      LoopPass (t + 100) (t + 100), LoopPass (t + 400) (t + 400)]"


definition five_short_presses :: "event list" where
  "five_short_presses =
     short_press 1000 @ short_press 2000 @ short_press 3000 @ short_press 4000
       @ short_press 5000"

section \<open>Properties\<close>

subsection \<open>The handlers in closed form\<close>

lemma startTimer_eq:
  "startTimer c s =
     s\<lparr>interruptsOn := True, TCCR1A := 0, TCNT1 := 0,
       OCR1A := 7812 * (if c = 0 then 1 else c) - 1,
       TCCR1B := 13, TIMSK1 := TIMSK1 s OR 2\<rparr>"
  by (simp add: startTimer_def Let_def WGM12_def CS12_def CS10_def OCIE1A_def)

lemma sint_pos_nonzero: "0 < sint (c :: 16 word) \<Longrightarrow> c \<noteq> 0"
  by auto

lemma loop_start_fire:
  assumes "actionStart s" "\<not> Blink s" "0 < sint (PressCounter s)"
  shows "loop_start s =
     s\<lparr>actionStart := False,
       serial := serial s @
         [Print ''Medium press. Starting with: '', PrintlnInt (PressCounter s)],
       ledPin := False, interruptsOn := True, TCCR1A := 0, TCNT1 := 0,
       OCR1A := 7812 * PressCounter s - 1,
       TCCR1B := 13, TIMSK1 := TIMSK1 s OR 2, Blink := True\<rparr>"
  using assms sint_pos_nonzero [of "PressCounter s"]
  by (simp add: loop_start_def Let_def startTimer_eq)

lemma loop_start_skip:
  assumes "actionStart s" "Blink s \<or> \<not> 0 < sint (PressCounter s)"
  shows "loop_start s = s\<lparr>actionStart := False\<rparr>"
  using assms by (auto simp add: loop_start_def Let_def)

lemma loop_start_idle: "\<not> actionStart s \<Longrightarrow> loop_start s = s"
  by (simp add: loop_start_def)

lemma loop_start_pass:
  assumes "actionStart s" "\<not> actionStop s" "\<not> Blink s" "0 < sint (PressCounter s)"
  shows "OCR1A (loop t1 t2 s) = 7812 * PressCounter s - 1"
proof -
  let ?m = "loop_flash t2 (loop_short t1 s)"
  have a: "actionStart ?m" "\<not> Blink ?m" "PressCounter ?m = PressCounter s"
    using assms by (simp_all add: loop_flash_def loop_short_def)
  have "loop t1 t2 s = loop_start ?m"
    using assms by (simp add: loop_def loop_stop_def)
  then show ?thesis
    using a assms(4) by (simp add: loop_start_fire)
qed

lemma buttonISR_release:
  assumes "\<not> now - lastISRTime s < 50"
  shows "buttonISR now False s =
     (if now - pressTime s < 1500 then
        (if Blink s then s\<lparr>lastISRTime := now\<rparr>
         else s\<lparr>lastISRTime := now, PressCounter := PressCounter s + 1, actionShort := True\<rparr>)
      else if now - pressTime s < 4000 then s\<lparr>lastISRTime := now, actionStart := True\<rparr>
      else s\<lparr>lastISRTime := now, actionStop := True\<rparr>)"
  using assms
  by (simp add: buttonISR_def Let_def DEBOUNCE_TIME_def SHORT_PRESS_TIME_def LONG_PRESS_TIME_def)

lemma buttonISR_press:
  assumes "\<not> now - lastISRTime s < 50"
  shows "buttonISR now True s = s\<lparr>lastISRTime := now, pressTime := now\<rparr>"
  using assms by (simp add: buttonISR_def Let_def DEBOUNCE_TIME_def)

lemma buttonISR_bounce:
  assumes "now - lastISRTime s < 50"
  shows "buttonISR now high s = s"
  using assms by (simp add: buttonISR_def DEBOUNCE_TIME_def)

lemma loop_quiet:
  assumes "\<not> actionStop s" "\<not> actionShort s" "\<not> actionStart s" "\<not> feedbackLedOn s"
  shows "loop t1 t2 s = s"
  using assms by (simp add: loop_def loop_stop_def loop_short_def loop_flash_def loop_start_def)

lemma flash_short_flag:
  "loop_flash t2 (loop_short t1 (s\<lparr>actionStart := b\<rparr>)) =
     (loop_flash t2 (loop_short t1 s))\<lparr>actionStart := b\<rparr>"
  by (simp add: loop_flash_def loop_short_def)

lemma flash_short_keeps:
  "actionStart (loop_flash t2 (loop_short t1 s)) = actionStart s"
  "Blink (loop_flash t2 (loop_short t1 s)) = Blink s"
  "PressCounter (loop_flash t2 (loop_short t1 s)) = PressCounter s"
  by (simp_all add: loop_flash_def loop_short_def)

lemma loop_stop_flag:
  "loop_stop (s\<lparr>actionStart := b\<rparr>) = (loop_stop s)\<lparr>actionStart := b\<rparr>"
  by (simp add: loop_stop_def stopTimer_def)

lemma loop_stop_guard:
  "Blink s \<or> sint (PressCounter s) \<le> 0 \<Longrightarrow>
     Blink (loop_stop s) \<or> sint (PressCounter (loop_stop s)) \<le> 0"
  by (simp add: loop_stop_def stopTimer_def)

lemma loop_start_unflag:
  assumes "Blink s \<or> sint (PressCounter s) \<le> 0"
  shows "loop_start s = s\<lparr>actionStart := False\<rparr>"
proof (cases "actionStart s")
  case True
  with assms show ?thesis by (intro loop_start_skip) auto
next
  case False
  then show ?thesis by (simp add: loop_start_idle)
qed

lemma loop_start_dropped:
  assumes "Blink s \<or> sint (PressCounter s) \<le> 0"
  shows "loop t1 t2 (s\<lparr>actionStart := False\<rparr>) = loop t1 t2 s"
proof -
  let ?m = "loop_flash t2 (loop_short t1 (loop_stop s))"
  have g: "Blink ?m \<or> sint (PressCounter ?m) \<le> 0"
    using loop_stop_guard [OF assms] by (simp add: flash_short_keeps)
  have "loop t1 t2 (s\<lparr>actionStart := False\<rparr>) = loop_start (?m\<lparr>actionStart := False\<rparr>)"
    by (simp add: loop_def loop_stop_flag flash_short_flag)
  also have "\<dots> = ?m\<lparr>actionStart := False\<rparr>"
    by (simp add: loop_start_idle)
  also have "\<dots> = loop_start ?m"
    using g by (simp add: loop_start_unflag)
  finally show ?thesis by (simp add: loop_def)
qed

lemma loop_clears_flags:
  "\<not> actionStop (loop t1 t2 s)" "\<not> actionShort (loop t1 t2 s)" "\<not> actionStart (loop t1 t2 s)"
  by (simp_all add: loop_def loop_stop_def stopTimer_def loop_short_def loop_flash_def
      loop_start_def startTimer_eq Let_def)

lemma loop_keeps_edge_times:
  "lastISRTime (loop t1 t2 s) = lastISRTime s" "pressTime (loop t1 t2 s) = pressTime s"
  by (simp_all add: loop_def loop_stop_def stopTimer_def loop_short_def loop_flash_def
      loop_start_def startTimer_eq Let_def)

lemma loop_without_start:
  assumes "\<not> actionStart s"
  shows "Blink (loop t1 t2 s) = (Blink s \<and> \<not> actionStop s)"
    and "PressCounter (loop t1 t2 s) = (if actionStop s then 0 else PressCounter s)"
    and "OCR1A (loop t1 t2 s) = OCR1A s"
proof -
  let ?m = "loop_flash t2 (loop_short t1 (loop_stop s))"
  have "\<not> actionStart ?m"
    using assms by (simp add: flash_short_keeps loop_stop_def stopTimer_def)
  then have l: "loop t1 t2 s = ?m"
    by (simp add: loop_def loop_start_idle)
  show "Blink (loop t1 t2 s) = (Blink s \<and> \<not> actionStop s)"
    unfolding l by (simp add: flash_short_keeps loop_stop_def stopTimer_def)
  show "PressCounter (loop t1 t2 s) = (if actionStop s then 0 else PressCounter s)"
    unfolding l by (simp add: flash_short_keeps loop_stop_def stopTimer_def)
  show "OCR1A (loop t1 t2 s) = OCR1A s"
    unfolding l by (simp add: loop_flash_def loop_short_def loop_stop_def stopTimer_def)
qed

subsection \<open>Small press counts\<close>

lemma small_counts:
  fixes n :: "16 word"
  assumes "1 \<le> sint n" "sint n \<le> 7"
  shows "n = 1 \<or> n = 2 \<or> n = 3 \<or> n = 4 \<or> n = 5 \<or> n = 6 \<or> n = 7"
proof -
  have "sint n = 1 \<or> sint n = 2 \<or> sint n = 3 \<or> sint n = 4
      \<or> sint n = 5 \<or> sint n = 6 \<or> sint n = 7"
    using assms by arith
  then have "word_of_int (sint n) = (1 :: 16 word) \<or> word_of_int (sint n) = (2 :: 16 word)
     \<or> word_of_int (sint n) = (3 :: 16 word) \<or> word_of_int (sint n) = (4 :: 16 word)
     \<or> word_of_int (sint n) = (5 :: 16 word) \<or> word_of_int (sint n) = (6 :: 16 word)
     \<or> word_of_int (sint n) = (7 :: 16 word)"
    by (elim disjE) (simp_all only: of_int_numeral of_int_1, simp_all)
  then show ?thesis by simp
qed

lemma compare_ticks:
  fixes n :: "16 word"
  assumes "1 \<le> sint n" "sint n \<le> 7"
  shows "unat (7812 * n - 1) + 1 = 7812 * nat (sint n)"
  using small_counts [OF assms] by (elim disjE) simp_all

subsection \<open>Where the checked handlers have a result\<close>

lemma int_result_Inr: "- 32768 \<le> i \<Longrightarrow> i \<le> 32767 \<Longrightarrow> int_result i = Inr (word_of_int i)"
  by (simp add: int_result_def)

lemma int_result_Inl: "32767 < i \<Longrightarrow> int_result i = Inl SignedOverflow"
  by (simp add: int_result_def)

lemma buttonISR_c_eq:
  "buttonISR_c now high s =
     (if \<not> now - lastISRTime s < 50 \<and> \<not> high \<and> now - pressTime s < 1500 \<and> \<not> Blink s
         \<and> sint (PressCounter s) = 32767
      then Inl SignedOverflow else Inr (buttonISR now high s))"
proof -
  have "sint (PressCounter s) \<le> 32767"
    using sint_lt [of "PressCounter s"] by simp
  moreover have "- 32768 \<le> sint (PressCounter s)"
    using sint_ge [of "PressCounter s"] by simp
  ultimately show ?thesis
    by (auto simp add: buttonISR_c_def buttonISR_def Let_def int_result_def DEBOUNCE_TIME_def
        SHORT_PRESS_TIME_def LONG_PRESS_TIME_def)
qed

lemma startTimer_c_eq:
  "startTimer_c c s =
     (if - 4 \<le> sint c \<and> sint c \<le> 4 then Inr (startTimer c s) else Inl SignedOverflow)"
proof -
  define k where "k = (if c = 0 then 1 else c)"
  have w: "word_of_int (7812 * sint k) = 7812 * k"
    by simp
  show ?thesis
  proof (cases "- 4 \<le> sint c \<and> sint c \<le> 4")
    case True
    then have k: "- 4 \<le> sint k" "sint k \<le> 4"
      by (simp_all add: k_def)
    have p: "- 32768 \<le> 7812 * sint k" "7812 * sint k \<le> 32767"
      using k by simp_all
    have q: "sint (7812 * k) = 7812 * sint k"
      using p by (simp add: sint_word_ariths signed_take_bit_int_eq_self_iff)
    have r: "- 32768 \<le> 7812 * sint k - 1" "7812 * sint k - 1 \<le> 32767"
      using k by simp_all
    have v: "int_result (sint (7812 * k) - 1) = Inr (7812 * k - 1)"
      unfolding q using int_result_Inr [OF r] by simp
    have "startTimer_c c s = Inr (startTimer c s)"
      using p v unfolding startTimer_c_def startTimer_def k_def [symmetric]
      by (simp add: Let_def int_result_Inr w)
    with True show ?thesis by simp
  next
    case False
    then have c: "c \<noteq> 0" by auto
    then have kc: "k = c" by (simp add: k_def)
    have "7812 * sint c < - 32768 \<or> 32767 < 7812 * sint c"
      using False by auto
    then have "int_result (7812 * sint c) = Inl SignedOverflow"
      by (auto simp add: int_result_def)
    then have "startTimer_c c s = Inl SignedOverflow"
      using c by (simp add: startTimer_c_def Let_def)
    with False show ?thesis by simp
  qed
qed

lemma loop_start_c_eq:
  "loop_start_c s =
     (if actionStart s \<and> \<not> Blink s \<and> 4 < sint (PressCounter s)
      then Inl SignedOverflow else Inr (loop_start s))"
  by (simp add: loop_start_c_def loop_start_def Let_def startTimer_c_eq)

lemma loop_c_eq:
  "loop_c t1 t2 s =
     (if actionStart s \<and> \<not> actionStop s \<and> \<not> Blink s \<and> 4 < sint (PressCounter s)
      then Inl SignedOverflow else Inr (loop t1 t2 s))"
proof -
  let ?m = "loop_flash t2 (loop_short t1 (loop_stop s))"
  have m: "actionStart ?m = actionStart s" "Blink ?m = (Blink s \<and> \<not> actionStop s)"
    "PressCounter ?m = (if actionStop s then 0 else PressCounter s)"
    by (simp_all add: flash_short_keeps loop_stop_def stopTimer_def)
  show ?thesis
    unfolding loop_c_def loop_start_c_eq m by (simp add: loop_def)
qed

lemma step_c_defined:
  assumes "sint (PressCounter s) \<le> 4"
  shows "step_c e s = Inr (step e s)"
  using assms by (cases e) (simp_all add: buttonISR_c_eq loop_c_eq)

lemma five_short_presses_count:
  "run_c five_short_presses initial =
     Inr (initial\<lparr>PressCounter := 5, pressTime := 5000, lastISRTime := 5100,
            lastFlashStart := 5100,
            serial := [Print ''Short press number: '', PrintlnInt 1,
                       Print ''Short press number: '', PrintlnInt 2,
                       Print ''Short press number: '', PrintlnInt 3,
                       Print ''Short press number: '', PrintlnInt 4,
                       Print ''Short press number: '', PrintlnInt 5]\<rparr>)"
  by (simp add: five_short_presses_def short_press_def
      buttonISR_c_eq loop_c_eq initial_def
      buttonISR_def loop_def loop_stop_def loop_short_def loop_flash_def loop_start_def
      DEBOUNCE_TIME_def SHORT_PRESS_TIME_def LONG_PRESS_TIME_def Let_def)

subsection \<open>C1: the blink period\<close>

text \<open>
  C1 says that the blink period follows a three-way bucket: 1000 ms for a press count of
  1, 2000 ms for 2, and 3000 ms for every count from 3 on, 5 included. The compiled
  program has no bucket: \<open>startTimer\<close> sets the compare register to
  \<open>7812 * counts - 1\<close>, so the period grows with the count. With four short presses
  before the medium press the LED toggles every 2000 ms (a period of 4000 ms), with five
  every 2500 ms (a period of 5000 ms); neither is 3000 ms. (The three-way bucket is the
  one of the commented-out solution without a timer, lines 54 to 56.)
\<close>

theorem C1_bucket_counterexample:
  "blink_period_ms (loop 0 0 (initial\<lparr>PressCounter := 4, actionStart := True\<rparr>)) = 4000
   \<and> toggle_ms (loop 0 0 (initial\<lparr>PressCounter := 4, actionStart := True\<rparr>)) = 2000
   \<and> blink_period_ms (loop 0 0 (initial\<lparr>PressCounter := 4, actionStart := True\<rparr>)) \<noteq> 3000
   \<and> OCR1A (loop 0 0 (initial\<lparr>PressCounter := 4, actionStart := True\<rparr>)) = 31247
   \<and> blink_period_ms (loop 0 0 (initial\<lparr>PressCounter := 5, actionStart := True\<rparr>)) = 5000
   \<and> toggle_ms (loop 0 0 (initial\<lparr>PressCounter := 5, actionStart := True\<rparr>)) = 2500
   \<and> blink_period_ms (loop 0 0 (initial\<lparr>PressCounter := 5, actionStart := True\<rparr>)) \<noteq> 3000"
  by (simp add: loop_def loop_start_def loop_flash_def loop_short_def loop_stop_def
      initial_def startTimer_def Let_def blink_period_ms_def blink_period_us_def
      toggle_ms_def toggle_us_def toggle_ticks_def ms_of_us_def)

text \<open>
  C1 as amended: when a medium-press event is consumed and blinking starts with a press
  count \<open>n\<close>, the compare register is \<open>7812 * n - 1\<close>, and for \<open>1 \<le> n \<le> 7\<close> the LED
  toggles every \<open>7812 * n\<close> timer ticks, which is \<open>500 * n\<close> ms, and a full blink period
  is \<open>1000 * n\<close> ms (both to the nearest millisecond; the exact period is
  \<open>999936 * n\<close> microseconds). So the counts 1, 2 and 3 give 1000, 2000 and 3000 ms, and
  the counts 4 to 7 give 4000 to 7000 ms. The stop handler runs first in \<open>loop\<close> and
  resets the counter, so the statement is for an iteration with no stop event pending.
\<close>

theorem C1_blink_period:
  assumes "actionStart s" and "\<not> actionStop s" and "\<not> Blink s"
    and "1 \<le> sint (PressCounter s)" and "sint (PressCounter s) \<le> 7"
  shows "OCR1A (loop t1 t2 s) = 7812 * PressCounter s - 1
    \<and> toggle_ticks (loop t1 t2 s) = 7812 * nat (sint (PressCounter s))
    \<and> blink_period_us (loop t1 t2 s) = 999936 * nat (sint (PressCounter s))
    \<and> toggle_ms (loop t1 t2 s) = 500 * nat (sint (PressCounter s))
    \<and> blink_period_ms (loop t1 t2 s) = 1000 * nat (sint (PressCounter s))"
proof -
  let ?n = "nat (sint (PressCounter s))"
  have o: "OCR1A (loop t1 t2 s) = 7812 * PressCounter s - 1"
    using assms by (simp add: loop_start_pass)
  have t: "toggle_ticks (loop t1 t2 s) = 7812 * ?n"
    using compare_ticks [OF assms(4,5)] by (simp add: toggle_ticks_def o)
  have n: "1 \<le> ?n" "?n \<le> 7"
    using assms(4,5) by simp_all
  have u: "blink_period_us (loop t1 t2 s) = 999936 * ?n"
    by (simp add: blink_period_us_def toggle_us_def t)
  have m1: "toggle_ms (loop t1 t2 s) = 500 * ?n"
    using n by (simp add: toggle_ms_def toggle_us_def ms_of_us_def t)
  have m2: "blink_period_ms (loop t1 t2 s) = 1000 * ?n"
    using n by (simp add: blink_period_ms_def ms_of_us_def u)
  from o t u m1 m2 show ?thesis by simp
qed

theorem C1_blink_period_witness:
  "blink_period_ms (loop 0 0 (initial\<lparr>PressCounter := 1, actionStart := True\<rparr>)) = 1000
   \<and> blink_period_ms (loop 0 0 (initial\<lparr>PressCounter := 2, actionStart := True\<rparr>)) = 2000
   \<and> blink_period_ms (loop 0 0 (initial\<lparr>PressCounter := 3, actionStart := True\<rparr>)) = 3000
   \<and> toggle_ms (loop 0 0 (initial\<lparr>PressCounter := 3, actionStart := True\<rparr>)) = 1500
   \<and> OCR1A (loop 0 0 (initial\<lparr>PressCounter := 3, actionStart := True\<rparr>)) = 23435"
  using C1_blink_period [of "initial\<lparr>PressCounter := 1, actionStart := True\<rparr>" 0 0]
    C1_blink_period [of "initial\<lparr>PressCounter := 2, actionStart := True\<rparr>" 0 0]
    C1_blink_period [of "initial\<lparr>PressCounter := 3, actionStart := True\<rparr>" 0 0]
  by (simp add: initial_def)

subsection \<open>C2: classification of a press by its duration\<close>

text \<open>
  C2: a release edge that passes the debounce check is classified by the duration
  \<open>now - pressTime\<close>: below 1500 ms it is a short press (counted and flagged unless
  \<open>Blink\<close> is set), from 1500 ms and below 4000 ms it is a medium press (\<open>actionStart\<close>
  is raised and nothing else changes), from 4000 ms on it is a long press (\<open>actionStop\<close>
  is raised). The durations 1499, 1500, 3999, 4000 and 4001 are evaluated in the witness.
\<close>

theorem C2_press_classification:
  assumes "\<not> now - lastISRTime s < 50"
  shows "(now - pressTime s < 1500 \<longrightarrow>
            buttonISR now False s =
              (if Blink s then s\<lparr>lastISRTime := now\<rparr>
               else s\<lparr>lastISRTime := now, PressCounter := PressCounter s + 1,
                      actionShort := True\<rparr>))
       \<and> (1500 \<le> now - pressTime s \<and> now - pressTime s < 4000 \<longrightarrow>
            buttonISR now False s = s\<lparr>lastISRTime := now, actionStart := True\<rparr>)
       \<and> (4000 \<le> now - pressTime s \<longrightarrow>
            buttonISR now False s = s\<lparr>lastISRTime := now, actionStop := True\<rparr>)"
proof -
  have "now - pressTime s < 4000" if "now - pressTime s < 1500"
    using that by (rule less_trans) simp
  then show ?thesis
    using assms by (auto simp add: buttonISR_release)
qed

theorem C2_press_classification_witness:
  "buttonISR 2499 False (initial\<lparr>pressTime := 1000, lastISRTime := 1000\<rparr>) =
     initial\<lparr>pressTime := 1000, lastISRTime := 2499, PressCounter := 1, actionShort := True\<rparr>
   \<and> buttonISR 2500 False (initial\<lparr>pressTime := 1000, lastISRTime := 1000\<rparr>) =
     initial\<lparr>pressTime := 1000, lastISRTime := 2500, actionStart := True\<rparr>
   \<and> buttonISR 4999 False (initial\<lparr>pressTime := 1000, lastISRTime := 1000\<rparr>) =
     initial\<lparr>pressTime := 1000, lastISRTime := 4999, actionStart := True\<rparr>
   \<and> buttonISR 5000 False (initial\<lparr>pressTime := 1000, lastISRTime := 1000\<rparr>) =
     initial\<lparr>pressTime := 1000, lastISRTime := 5000, actionStop := True\<rparr>
   \<and> buttonISR 5001 False (initial\<lparr>pressTime := 1000, lastISRTime := 1000\<rparr>) =
     initial\<lparr>pressTime := 1000, lastISRTime := 5001, actionStop := True\<rparr>"
  using C2_press_classification [of 2499 "initial\<lparr>pressTime := 1000, lastISRTime := 1000\<rparr>"]
    C2_press_classification [of 2500 "initial\<lparr>pressTime := 1000, lastISRTime := 1000\<rparr>"]
    C2_press_classification [of 4999 "initial\<lparr>pressTime := 1000, lastISRTime := 1000\<rparr>"]
    C2_press_classification [of 5000 "initial\<lparr>pressTime := 1000, lastISRTime := 1000\<rparr>"]
    C2_press_classification [of 5001 "initial\<lparr>pressTime := 1000, lastISRTime := 1000\<rparr>"]
  by (simp add: initial_def)

subsection \<open>C3: short presses\<close>

text \<open>
  C3: on the release of a short press (duration below 1500 ms, edge accepted by the
  debounce check), if \<open>Blink\<close> is not set then \<open>PressCounter\<close> grows by one and
  \<open>actionShort\<close> is raised; if \<open>Blink\<close> is set then nothing changes but the time of
  the last accepted edge: the counter, the three flags and the state of the feedback
  flash stay as they are, and the next pass of the short-press handler does nothing
  unless a flag was already pending. The counter is a 16-bit \<^verbatim>\<open>int\<close>: the increment is
  by one as a signed number as long as it is below 32767.
\<close>

theorem C3_short_press:
  assumes "\<not> now - lastISRTime s < 50" and "now - pressTime s < 1500"
  shows "(\<not> Blink s \<longrightarrow>
            buttonISR now False s =
              s\<lparr>lastISRTime := now, PressCounter := PressCounter s + 1, actionShort := True\<rparr>
          \<and> actionShort (buttonISR now False s)
          \<and> PressCounter (buttonISR now False s) = PressCounter s + 1
          \<and> (sint (PressCounter s) < 32767 \<longrightarrow>
               sint (PressCounter (buttonISR now False s)) = sint (PressCounter s) + 1))
       \<and> (Blink s \<longrightarrow>
            buttonISR now False s = s\<lparr>lastISRTime := now\<rparr>
          \<and> PressCounter (buttonISR now False s) = PressCounter s
          \<and> actionShort (buttonISR now False s) = actionShort s
          \<and> actionStart (buttonISR now False s) = actionStart s
          \<and> actionStop (buttonISR now False s) = actionStop s
          \<and> ledPin (buttonISR now False s) = ledPin s
          \<and> feedbackLedOn (buttonISR now False s) = feedbackLedOn s
          \<and> lastFlashStart (buttonISR now False s) = lastFlashStart s
          \<and> (\<not> actionShort s \<longrightarrow>
                loop_short t (buttonISR now False s) = buttonISR now False s))"
proof -
  have inc: "sint (PressCounter s) < 32767 \<Longrightarrow>
      sint (PressCounter s + 1) = sint (PressCounter s) + 1"
    using sint_ge [of "PressCounter s"]
    by (simp add: sint_word_ariths signed_take_bit_int_eq_self_iff)
  show ?thesis
    using assms inc by (simp add: buttonISR_release loop_short_def)
qed

theorem C3_short_press_witness:
  "buttonISR 1300 False (initial\<lparr>pressTime := 1000, lastISRTime := 1000\<rparr>) =
     initial\<lparr>pressTime := 1000, lastISRTime := 1300, PressCounter := 1, actionShort := True\<rparr>
   \<and> sint (PressCounter
        (buttonISR 1300 False (initial\<lparr>pressTime := 1000, lastISRTime := 1000\<rparr>))) = 1
   \<and> buttonISR 1300 False
        (initial\<lparr>pressTime := 1000, lastISRTime := 1000, Blink := True, PressCounter := 2\<rparr>) =
     initial\<lparr>pressTime := 1000, lastISRTime := 1300, Blink := True, PressCounter := 2\<rparr>
   \<and> loop_short 1301 (buttonISR 1300 False
        (initial\<lparr>pressTime := 1000, lastISRTime := 1000, Blink := True, PressCounter := 2\<rparr>)) =
     initial\<lparr>pressTime := 1000, lastISRTime := 1300, Blink := True, PressCounter := 2\<rparr>"
  using C3_short_press [of 1300 "initial\<lparr>pressTime := 1000, lastISRTime := 1000\<rparr>" 1301]
    C3_short_press [of 1300
      "initial\<lparr>pressTime := 1000, lastISRTime := 1000, Blink := True, PressCounter := 2\<rparr>" 1301]
  by (simp add: initial_def cong: conj_cong)

subsection \<open>C4: the stop event\<close>

text \<open>
  C4: from every state, consuming \<open>actionStop\<close> clears the flag, stops the timer
  (\<open>TCCR1B\<close> and \<open>TIMSK1\<close> are zero), switches the LED off, and resets
  \<open>PressCounter\<close> and \<open>Blink\<close>. A second stop changes nothing but the serial output,
  and a stop in an idle state only clears the flag and writes its two lines. For a whole
  iteration of \<open>loop\<close> the same holds at its end, where the LED is lit only by a
  short-press flash that was pending in the same iteration.
\<close>

theorem C4_stop_resets:
  "(actionStop s \<longrightarrow>
      \<not> actionStop (loop_stop s) \<and> TCCR1B (loop_stop s) = 0 \<and> TIMSK1 (loop_stop s) = 0
      \<and> \<not> timer_armed (loop_stop s) \<and> \<not> ledPin (loop_stop s)
      \<and> PressCounter (loop_stop s) = 0 \<and> \<not> Blink (loop_stop s))
   \<and> (actionStop s \<longrightarrow>
      loop_stop ((loop_stop s)\<lparr>actionStop := True\<rparr>) =
        (loop_stop s)\<lparr>serial := serial (loop_stop ((loop_stop s)\<lparr>actionStop := True\<rparr>))\<rparr>)
   \<and> (actionStop s \<and> \<not> Blink s \<and> PressCounter s = 0 \<and> \<not> ledPin s
        \<and> TCCR1B s = 0 \<and> TIMSK1 s = 0 \<longrightarrow>
      loop_stop s = s\<lparr>actionStop := False, serial := serial (loop_stop s)\<rparr>)
   \<and> (actionStop s \<longrightarrow>
      \<not> actionStop (loop t1 t2 s) \<and> TCCR1B (loop t1 t2 s) = 0 \<and> TIMSK1 (loop t1 t2 s) = 0
      \<and> PressCounter (loop t1 t2 s) = 0 \<and> \<not> Blink (loop t1 t2 s)
      \<and> ledPin (loop t1 t2 s) = (actionShort s \<and> \<not> 200 \<le> t2 - t1))"
  by (simp add: loop_def loop_stop_def stopTimer_def loop_short_def loop_flash_def
      loop_start_def timer_armed_def)

theorem C4_stop_resets_witness:
  "PressCounter (loop_stop (initial\<lparr>actionStop := True, Blink := True, PressCounter := 2,
      ledPin := True, TCCR1B := 13, TIMSK1 := 2, OCR1A := 15623\<rparr>)) = 0
   \<and> \<not> ledPin (loop_stop (initial\<lparr>actionStop := True, Blink := True, PressCounter := 2,
      ledPin := True, TCCR1B := 13, TIMSK1 := 2, OCR1A := 15623\<rparr>))
   \<and> \<not> Blink (loop_stop (initial\<lparr>actionStop := True, Blink := True, PressCounter := 2,
      ledPin := True, TCCR1B := 13, TIMSK1 := 2, OCR1A := 15623\<rparr>))
   \<and> \<not> timer_armed (loop_stop (initial\<lparr>actionStop := True, Blink := True, PressCounter := 2,
      ledPin := True, TCCR1B := 13, TIMSK1 := 2, OCR1A := 15623\<rparr>))
   \<and> \<not> actionStop (loop 7 7 (initial\<lparr>actionStop := True, Blink := True, PressCounter := 2,
      ledPin := True, TCCR1B := 13, TIMSK1 := 2, OCR1A := 15623\<rparr>))
   \<and> \<not> ledPin (loop 7 7 (initial\<lparr>actionStop := True, Blink := True, PressCounter := 2,
      ledPin := True, TCCR1B := 13, TIMSK1 := 2, OCR1A := 15623\<rparr>))
   \<and> PressCounter (loop_stop (initial\<lparr>actionStop := True\<rparr>)) = 0
   \<and> \<not> ledPin (loop_stop (initial\<lparr>actionStop := True\<rparr>))
   \<and> \<not> actionStop (loop_stop (initial\<lparr>actionStop := True\<rparr>))"
  using C4_stop_resets [of "initial\<lparr>actionStop := True, Blink := True, PressCounter := 2,
      ledPin := True, TCCR1B := 13, TIMSK1 := 2, OCR1A := 15623\<rparr>" 7 7]
    C4_stop_resets [of "initial\<lparr>actionStop := True\<rparr>" 7 7]
  by (simp add: initial_def)

subsection \<open>C5: the start event\<close>




subsection \<open>C6: debounce\<close>

text \<open>
  C6: an edge that comes less than 50 ms after the last accepted edge leaves the whole
  state as it is (no flag, no counter, no time stamp changes); any other edge is accepted
  and its time becomes the time of the last accepted edge.
\<close>

theorem C6_debounce:
  "(now - lastISRTime s < 50 \<longrightarrow> buttonISR now high s = s)
   \<and> (\<not> now - lastISRTime s < 50 \<longrightarrow> lastISRTime (buttonISR now high s) = now)"
  by (simp add: buttonISR_def Let_def DEBOUNCE_TIME_def)

theorem C6_debounce_witness:
  "buttonISR 1049 False (initial\<lparr>lastISRTime := 1000, pressTime := 1000\<rparr>) =
     initial\<lparr>lastISRTime := 1000, pressTime := 1000\<rparr>
   \<and> buttonISR 1049 True (initial\<lparr>lastISRTime := 1000, pressTime := 1000\<rparr>) =
     initial\<lparr>lastISRTime := 1000, pressTime := 1000\<rparr>
   \<and> lastISRTime (buttonISR 1050 False (initial\<lparr>lastISRTime := 1000, pressTime := 1000\<rparr>)) = 1050
   \<and> lastISRTime (buttonISR 1050 True (initial\<lparr>lastISRTime := 1000, pressTime := 1000\<rparr>)) = 1050"
  using C6_debounce [of 1049 "initial\<lparr>lastISRTime := 1000, pressTime := 1000\<rparr>" False]
    C6_debounce [of 1049 "initial\<lparr>lastISRTime := 1000, pressTime := 1000\<rparr>" True]
    C6_debounce [of 1050 "initial\<lparr>lastISRTime := 1000, pressTime := 1000\<rparr>" False]
    C6_debounce [of 1050 "initial\<lparr>lastISRTime := 1000, pressTime := 1000\<rparr>" True]
  by (simp add: initial_def)

subsection \<open>C7: the feedback flash\<close>

text \<open>
  C7: consuming \<open>actionShort\<close> switches the LED on, sets \<open>feedbackLedOn\<close> and records
  the time. In an iteration of \<open>loop\<close> with the flash active, the LED is switched off and
  \<open>feedbackLedOn\<close> cleared once 200 ms have passed since the recorded time, and not
  before. A short-press event consumed while a flash is active records its own time, so
  the 200 ms count from it and the LED stays on through the flash check of that
  iteration, whatever the older recorded time was.
\<close>

theorem C7_feedback_flash:
  "(actionShort s \<longrightarrow>
      ledPin (loop_short t1 s) \<and> feedbackLedOn (loop_short t1 s)
      \<and> lastFlashStart (loop_short t1 s) = t1 \<and> \<not> actionShort (loop_short t1 s))
   \<and> (feedbackLedOn s \<and> 200 \<le> t2 - lastFlashStart s \<longrightarrow>
      \<not> ledPin (loop_flash t2 s) \<and> \<not> feedbackLedOn (loop_flash t2 s))
   \<and> (\<not> actionShort s \<and> feedbackLedOn s \<and> 200 \<le> t2 - lastFlashStart s \<longrightarrow>
      \<not> ledPin (loop t1 t2 s) \<and> \<not> feedbackLedOn (loop t1 t2 s))
   \<and> (\<not> actionShort s \<and> feedbackLedOn s \<and> \<not> 200 \<le> t2 - lastFlashStart s \<longrightarrow>
      feedbackLedOn (loop t1 t2 s) \<and> lastFlashStart (loop t1 t2 s) = lastFlashStart s)
   \<and> (actionShort s \<and> \<not> 200 \<le> t2 - t1 \<longrightarrow>
      feedbackLedOn (loop t1 t2 s) \<and> lastFlashStart (loop t1 t2 s) = t1
      \<and> ledPin (loop_flash t2 (loop_short t1 s))
      \<and> (\<not> actionStart s \<longrightarrow> ledPin (loop t1 t2 s)))
   \<and> (actionShort s \<and> 200 \<le> t2 - t1 \<longrightarrow>
      \<not> ledPin (loop t1 t2 s) \<and> \<not> feedbackLedOn (loop t1 t2 s))"
  by (simp add: loop_def loop_stop_def stopTimer_def loop_short_def loop_flash_def
      loop_start_def startTimer_eq Let_def)

theorem C7_feedback_flash_witness:
  "ledPin (loop 1000 1000 (initial\<lparr>actionShort := True, PressCounter := 1\<rparr>))
   \<and> feedbackLedOn (loop 1000 1000 (initial\<lparr>actionShort := True, PressCounter := 1\<rparr>))
   \<and> lastFlashStart (loop 1000 1000 (initial\<lparr>actionShort := True, PressCounter := 1\<rparr>)) = 1000
   \<and> feedbackLedOn
       (loop 0 1199 (initial\<lparr>feedbackLedOn := True, ledPin := True, lastFlashStart := 1000\<rparr>))
   \<and> \<not> ledPin
       (loop 0 1200 (initial\<lparr>feedbackLedOn := True, ledPin := True, lastFlashStart := 1000\<rparr>))
   \<and> \<not> feedbackLedOn
       (loop 0 1200 (initial\<lparr>feedbackLedOn := True, ledPin := True, lastFlashStart := 1000\<rparr>))
   \<and> ledPin
       (loop 1100 1250 (initial\<lparr>feedbackLedOn := True, ledPin := True, lastFlashStart := 1000,
          actionShort := True, PressCounter := 2\<rparr>))
   \<and> lastFlashStart
       (loop 1100 1250 (initial\<lparr>feedbackLedOn := True, ledPin := True, lastFlashStart := 1000,
          actionShort := True, PressCounter := 2\<rparr>)) = 1100"
  using C7_feedback_flash [of "initial\<lparr>actionShort := True, PressCounter := 1\<rparr>" 1000 1000]
    C7_feedback_flash
      [of "initial\<lparr>feedbackLedOn := True, ledPin := True, lastFlashStart := 1000\<rparr>" 0 1199]
    C7_feedback_flash
      [of "initial\<lparr>feedbackLedOn := True, ledPin := True, lastFlashStart := 1000\<rparr>" 0 1200]
    C7_feedback_flash
      [of "initial\<lparr>feedbackLedOn := True, ledPin := True, lastFlashStart := 1000,
          actionShort := True, PressCounter := 2\<rparr>" 1100 1250]
  by (simp add: initial_def)

subsection \<open>C8: every event has an outcome\<close>


subsection \<open>C9: flags\<close>

text \<open>
  C9: at the end of an iteration of \<open>loop\<close> (with no interrupt served inside it) none of
  the three flags is set, and each handler clears the flag it acts upon. The interrupt
  handlers never clear a flag: a flag that is set stays set through \<open>buttonISR\<close>, and
  \<open>timerISR\<close> does not touch the flags.
\<close>

theorem C9_flags_consumed:
  "\<not> actionStop (loop t1 t2 s) \<and> \<not> actionShort (loop t1 t2 s) \<and> \<not> actionStart (loop t1 t2 s)
   \<and> (actionStop s \<longrightarrow> \<not> actionStop (loop_stop s))
   \<and> (actionShort s \<longrightarrow> \<not> actionShort (loop_short t1 s))
   \<and> (actionStart s \<longrightarrow> \<not> actionStart (loop_start s))
   \<and> (actionShort s \<longrightarrow> actionShort (buttonISR now high s))
   \<and> (actionStart s \<longrightarrow> actionStart (buttonISR now high s))
   \<and> (actionStop s \<longrightarrow> actionStop (buttonISR now high s))
   \<and> actionShort (timerISR s) = actionShort s
   \<and> actionStart (timerISR s) = actionStart s
   \<and> actionStop (timerISR s) = actionStop s"
proof -
  have l: "\<not> actionStop (loop t1 t2 s) \<and> \<not> actionShort (loop t1 t2 s)
      \<and> \<not> actionStart (loop t1 t2 s)"
    by (simp add: loop_def loop_stop_def stopTimer_def loop_short_def loop_flash_def
        loop_start_def startTimer_eq Let_def)
  have h: "actionStop s \<longrightarrow> \<not> actionStop (loop_stop s)"
    "actionShort s \<longrightarrow> \<not> actionShort (loop_short t1 s)"
    "actionStart s \<longrightarrow> \<not> actionStart (loop_start s)"
    by (simp_all add: loop_stop_def stopTimer_def loop_short_def loop_start_def startTimer_eq
        Let_def)
  have p: "actionShort s \<longrightarrow> actionShort (buttonISR now high s)"
    "actionStart s \<longrightarrow> actionStart (buttonISR now high s)"
    "actionStop s \<longrightarrow> actionStop (buttonISR now high s)"
    by (simp_all add: buttonISR_def Let_def)
  have t: "actionShort (timerISR s) = actionShort s" "actionStart (timerISR s) = actionStart s"
    "actionStop (timerISR s) = actionStop s"
    by (simp_all add: timerISR_def)
  from l h p t show ?thesis by simp
qed

theorem C9_flags_consumed_witness:
  "\<not> actionStop (loop_stop (initial\<lparr>actionStop := True, actionShort := True, actionStart := True\<rparr>))
   \<and> \<not> actionShort
        (loop_short 5 (initial\<lparr>actionStop := True, actionShort := True, actionStart := True\<rparr>))
   \<and> \<not> actionStart
        (loop_start (initial\<lparr>actionStop := True, actionShort := True, actionStart := True\<rparr>))
   \<and> actionShort
        (buttonISR 100 True (initial\<lparr>actionStop := True, actionShort := True, actionStart := True\<rparr>))
   \<and> actionStart
        (buttonISR 100 True (initial\<lparr>actionStop := True, actionShort := True, actionStart := True\<rparr>))
   \<and> actionStop
        (buttonISR 100 True (initial\<lparr>actionStop := True, actionShort := True, actionStart := True\<rparr>))"
  using C9_flags_consumed
    [of 5 6 "initial\<lparr>actionStop := True, actionShort := True, actionStart := True\<rparr>" 100 True]
  by (simp add: initial_def)

subsection \<open>C10: a start event whose guard fails\<close>

text \<open>
  C10: when \<open>actionStart\<close> is consumed while \<open>Blink\<close> is set or \<open>PressCounter\<close> is
  not positive, the flag is cleared and nothing else changes; the iteration, and every
  run of events after it, is the same as if the flag had never been set. The event does
  not stay pending: when a short press makes the counter positive afterwards, the next
  iteration does not start the blink.
\<close>

theorem C10_start_discarded:
  assumes "actionStart s" and "Blink s \<or> sint (PressCounter s) \<le> 0"
  shows "loop_start s = s\<lparr>actionStart := False\<rparr>
    \<and> loop_start (loop_start s) = loop_start s
    \<and> loop t1 t2 (s\<lparr>actionStart := False\<rparr>) = loop t1 t2 s
    \<and> run es (loop t1 t2 (s\<lparr>actionStart := False\<rparr>)) = run es (loop t1 t2 s)
    \<and> (\<not> actionStop s \<and> \<not> actionShort s \<and> \<not> feedbackLedOn s \<longrightarrow>
         loop t1 t2 s = s\<lparr>actionStart := False\<rparr>)
    \<and> (PressCounter s = 0 \<and> \<not> Blink s
        \<and> \<not> now - lastISRTime s < 50 \<and> now - pressTime s < 1500 \<longrightarrow>
         PressCounter (buttonISR now False (loop t1 t2 s)) = 1
         \<and> PressCounter (loop t3 t4 (buttonISR now False (loop t1 t2 s))) = 1
         \<and> \<not> Blink (loop t3 t4 (buttonISR now False (loop t1 t2 s)))
         \<and> OCR1A (loop t3 t4 (buttonISR now False (loop t1 t2 s))) = OCR1A s
         \<and> \<not> actionStart (loop t3 t4 (buttonISR now False (loop t1 t2 s))))"
proof -
  have a: "loop_start s = s\<lparr>actionStart := False\<rparr>"
    using assms(2) by (rule loop_start_unflag)
  have b: "loop_start (loop_start s) = loop_start s"
    by (simp add: a loop_start_idle)
  have c: "loop t1 t2 (s\<lparr>actionStart := False\<rparr>) = loop t1 t2 s"
    using assms(2) by (rule loop_start_dropped)
  have c': "run es (loop t1 t2 (s\<lparr>actionStart := False\<rparr>)) = run es (loop t1 t2 s)"
    by (simp only: c)
  have d: "\<not> actionStop s \<and> \<not> actionShort s \<and> \<not> feedbackLedOn s \<longrightarrow>
         loop t1 t2 s = s\<lparr>actionStart := False\<rparr>"
    by (simp add: c [symmetric] loop_quiet)
  have e: "PressCounter (buttonISR now False (loop t1 t2 s)) = 1
         \<and> PressCounter (loop t3 t4 (buttonISR now False (loop t1 t2 s))) = 1
         \<and> \<not> Blink (loop t3 t4 (buttonISR now False (loop t1 t2 s)))
         \<and> OCR1A (loop t3 t4 (buttonISR now False (loop t1 t2 s))) = OCR1A s
         \<and> \<not> actionStart (loop t3 t4 (buttonISR now False (loop t1 t2 s)))"
    if h: "PressCounter s = 0" "\<not> Blink s" "\<not> now - lastISRTime s < 50"
      "now - pressTime s < 1500"
  proof -
    let ?m = "loop t1 t2 s"
    let ?q = "?m\<lparr>lastISRTime := now, PressCounter := 1, actionShort := True\<rparr>"
    have "PressCounter (loop t1 t2 (s\<lparr>actionStart := False\<rparr>)) = 0"
      and "\<not> Blink (loop t1 t2 (s\<lparr>actionStart := False\<rparr>))"
      and "OCR1A (loop t1 t2 (s\<lparr>actionStart := False\<rparr>)) = OCR1A s"
      using h by (simp_all add: loop_without_start)
    then have m: "PressCounter ?m = 0" "\<not> Blink ?m" "OCR1A ?m = OCR1A s"
      by (simp_all add: c)
    have r: "buttonISR now False ?m = ?q"
      using h m by (simp add: buttonISR_release loop_keeps_edge_times)
    have q: "\<not> actionStart ?q" "\<not> actionStop ?q"
      by (simp_all add: loop_clears_flags)
    have "PressCounter (loop t3 t4 ?q) = 1" "\<not> Blink (loop t3 t4 ?q)"
      "OCR1A (loop t3 t4 ?q) = OCR1A s"
      using q m by (simp_all add: loop_without_start)
    then show ?thesis
      unfolding r by (simp add: loop_clears_flags)
  qed
  from a b c c' d e show ?thesis by blast
qed

theorem C10_start_discarded_witness:
  "loop_start (initial\<lparr>actionStart := True\<rparr>) = initial
   \<and> loop 10 10 (initial\<lparr>actionStart := True\<rparr>) = initial
   \<and> PressCounter (buttonISR 100 False (loop 10 10 (initial\<lparr>actionStart := True\<rparr>))) = 1
   \<and> \<not> Blink (loop 110 110 (buttonISR 100 False (loop 10 10 (initial\<lparr>actionStart := True\<rparr>))))
   \<and> loop_start (initial\<lparr>actionStart := True, Blink := True, PressCounter := 2\<rparr>) =
       initial\<lparr>Blink := True, PressCounter := 2\<rparr>"
  using C10_start_discarded [of "initial\<lparr>actionStart := True\<rparr>" 10 10 "[]" 100 110 110]
    C10_start_discarded
      [of "initial\<lparr>actionStart := True, Blink := True, PressCounter := 2\<rparr>" 10 10 "[]" 100 110 110]
  by (simp add: initial_def cong: conj_cong)

end
